theory Spec2Isabelle
  imports Main "HOL-Library.List_Lexorder" "HOL-Library.Char_ord"
begin

section \<open>Data model\<close>

text \<open>
  JavaScript strings are modelled as \<open>string\<close>, a list of code units; every string the
  source compares against is ASCII. Values of unknown shape (headers, query, body,
  metadata values) are \<open>js_value\<close>; an object is an association list in insertion order,
  and a number is an integer, meant for the integers that a JavaScript number represents
  exactly.
\<close>

datatype js_value =
    JS_undefined
  | JS_null
  | JS_bool bool
  | JS_number int
  | JS_string string
  | JS_object "(string \<times> js_value) list"

text \<open>The npm severity names the repository's logging documentation lists.\<close>

datatype level = Error | Warn | Info | Http | Debug

text \<open>
  One call of a logger method: severity, message text and the metadata object. The
  structured logger's sink is the list of the calls it has received, oldest first.
\<close>

record log_record =
  level :: level
  message :: string
  metadata :: "(string \<times> js_value) list"

text \<open>
  The fields of an Express request that the middlewares read (\<open>reqMethod\<close> is
  \<open>req.method\<close>).
\<close>

record request =
  url :: string
  reqMethod :: string
  headers :: js_value
  query :: js_value
  body :: js_value
  ip :: "string option"

text \<open>The fields of an Express response that the middlewares read.\<close>

record response =
  statusCode :: int
  getHeaders :: js_value

section \<open>String operations of the runtime\<close>

text \<open>\<open>String.prototype.startsWith\<close>: the argument is an initial segment of the receiver.\<close>

fun startsWith :: "string \<Rightarrow> string \<Rightarrow> bool" where
  "startsWith s [] = True"
| "startsWith [] (p # ps) = False"
| "startsWith (c # cs) (p # ps) = (c = p \<and> startsWith cs ps)"

text \<open>\<open>String.prototype.includes\<close>: the argument occurs at some position of the receiver.\<close>

fun includesStr :: "string \<Rightarrow> string \<Rightarrow> bool" where
  "includesStr [] sub = startsWith [] sub"
| "includesStr (c # cs) sub = (startsWith (c # cs) sub \<or> includesStr cs sub)"

section \<open>HTTP access logger: the skip predicate\<close>

definition skipRoutes :: "string list" where
  "skipRoutes = [''/health'', ''/metrics'', ''/favicon.ico'']"

definition shouldSkipLog :: "request \<Rightarrow> response \<Rightarrow> bool" where
  "shouldSkipLog req res =
     (if list_ex (\<lambda>route. startsWith (url req) route) skipRoutes then True
      else if includesStr (url req) ''health'' \<and> statusCode res = 200 then True
      else False)"

section \<open>The structured logger's sink and the write-stream adapter\<close>

text \<open>
  The state the middlewares act on: the sink of the process-wide logger, the clock that
  \<open>Date.now()\<close> reads, and the response object of the request in flight (it is mutated
  by the handlers downstream, so what a closure reads from it is read at call time).
\<close>

record world =
  sink :: "log_record list"
  now :: int
  resObj :: response

text \<open>
  The level methods of the logger (\<open>logger.error\<close>, \<open>logger.http\<close>, \<open>logger.debug\<close>)
  hand one record of their severity to the sink.
\<close>

definition logger_log :: "level \<Rightarrow> string \<Rightarrow> (string \<times> js_value) list \<Rightarrow> world \<Rightarrow> world" where
  "logger_log lvl msg meta w =
     w\<lparr>sink := sink w @ [\<lparr>level = lvl, message = msg, metadata = meta\<rparr>]\<rparr>"

definition logger_error :: "string \<Rightarrow> (string \<times> js_value) list \<Rightarrow> world \<Rightarrow> world" where
  "logger_error msg meta w = logger_log Error msg meta w"

definition logger_http :: "string \<Rightarrow> world \<Rightarrow> world" where
  "logger_http msg w = logger_log Http msg [] w"

definition logger_debug :: "string \<Rightarrow> (string \<times> js_value) list \<Rightarrow> world \<Rightarrow> world" where
  "logger_debug msg meta w = logger_log Debug msg meta w"

text \<open>
  White space and line terminators of ECMAScript among the code units below 256: tab, line
  feed, vertical tab, form feed, carriage return, space and no-break space.
\<close>

definition isWhiteSpace :: "char \<Rightarrow> bool" where
  "isWhiteSpace c =
     (c = CHR 0x09 \<or> c = CHR 0x0A \<or> c = CHR 0x0B \<or> c = CHR 0x0C \<or> c = CHR 0x0D
      \<or> c = CHR 0x20 \<or> c = CHR 0xA0)"

text \<open>\<open>String.prototype.trim\<close> removes white space from both ends of the string.\<close>

definition trim :: "string \<Rightarrow> string" where
  "trim s = rev (dropWhile isWhiteSpace (rev (dropWhile isWhiteSpace s)))"

text \<open>
  The specification's wording of the adapter, "trims trailing whitespace", read literally:
  white space is removed from the end of the string only.
\<close>

definition trimTrailing :: "string \<Rightarrow> string" where
  "trimTrailing s = rev (dropWhile isWhiteSpace (rev s))"

text \<open>\<open>logStream.write\<close>.\<close>

definition logStream_write :: "string \<Rightarrow> world \<Rightarrow> world" where
  "logStream_write msg w = logger_http (trim msg) w"

text \<open>
  Modelled from the spec: the access-log middleware is \<open>morgan(format, {stream: logStream,
  skip: shouldSkipLog})\<close>, and morgan itself is an external library. Following section 4.2
  of the specification, when the response has completed the middleware evaluates the
  suppression rule on the request and the final response, and unless it holds writes one
  formatted line to the stream. The line formatter (morgan's compiled format string) is
  the parameter \<open>formatLine\<close>.
\<close>

definition httpLogger :: "(request \<Rightarrow> response \<Rightarrow> string) \<Rightarrow> request \<Rightarrow> world \<Rightarrow> world" where
  "httpLogger formatLine req w =
     (if shouldSkipLog req (resObj w) then w
      else logStream_write (formatLine req (resObj w)) w)"

section \<open>Configuration loading\<close>



text \<open>
  The logging section of a configuration file. The fields are \<open>level\<close>, \<open>format\<close>,
  \<open>directory\<close>, \<open>maxSize\<close> and \<open>maxFiles\<close> of the source; the first two carry a prefix
  here because transports and records have fields of the same names.
\<close>

record logConfig =
  cfgLevel :: level
  cfgFormat :: string
  directory :: string
  maxSize :: string
  maxFiles :: string

text \<open>What a configuration module exports, as far as the logger reads it.\<close>

record config =
  logging :: "logConfig option"




section \<open>Logger construction\<close>

text \<open>
  The formats of winston that \<open>createLogger\<close> composes, as data: \<open>timestamp({format})\<close>,
  \<open>errors({stack})\<close>, \<open>json()\<close>, \<open>colorize()\<close>, \<open>align()\<close>, the \<open>printf\<close> format
  \<open>prettyFormat\<close> of this module, and \<open>combine(...)\<close>.
\<close>

datatype format =
    Timestamp string
  | Errors bool
  | Json
  | Colorize
  | Align
  | PrettyFormat
  | Combine "format list"

text \<open>
  A transport with the options the source passes to its constructor. \<open>tMaxSize\<close>,
  \<open>tMaxFiles\<close>, \<open>tFormat\<close> and \<open>tLevel\<close> are the options \<open>maxSize\<close>, \<open>maxFiles\<close>,
  \<open>format\<close> and \<open>level\<close>; an option the source does not pass is \<open>None\<close>.
\<close>

datatype transport =
    Console (tFormat: format) (tLevel: "level option")
  | DailyRotateFile (filename: string) (datePattern: string) (tMaxSize: string)
      (tMaxFiles: string) (tFormat: format) (tLevel: "level option")

text \<open>
  What \<open>createLogger\<close> builds: the options of \<open>winston.createLogger\<close> and the transports
  registered with \<open>logger.exceptions.handle\<close> and \<open>logger.rejections.handle\<close>.
\<close>

record logger =
  lgLevel :: level
  transports :: "transport list"
  exitOnError :: bool
  exceptionHandlers :: "transport list"
  rejectionHandlers :: "transport list"

text \<open>
  The part of the process that \<open>createLogger\<close> reads: the environment variables
  \<open>NODE_ENV\<close> and \<open>ENABLE_CONSOLE_LOGS\<close>, and \<open>process.cwd()\<close>.
\<close>

record process =
  env_NODE_ENV :: "string option"
  env_ENABLE_CONSOLE_LOGS :: "string option"
  cwd :: string

text \<open>\<open>config.logging || {...}\<close>: the built-in default stands in for a missing section.\<close>

definition effectiveLogConfig :: "config \<Rightarrow> logConfig" where
  "effectiveLogConfig cfg =
     (case logging cfg of
        Some lc \<Rightarrow> lc
      | None \<Rightarrow> \<lparr>cfgLevel = Info, cfgFormat = ''json'', directory = ''logs'',
          maxSize = ''20m'', maxFiles = ''14d''\<rparr>)"

definition baseFormat :: format where
  "baseFormat = Combine [Timestamp ''YYYY-MM-DD HH:mm:ss'', Errors True]"

definition consoleFormat :: "logConfig \<Rightarrow> format" where
  "consoleFormat lc =
     (if cfgFormat lc = ''pretty'' then Combine [baseFormat, Colorize, Align, PrettyFormat]
      else Combine [baseFormat, Json])"

definition fileFormat :: format where
  "fileFormat = Combine [baseFormat, Json]"

text \<open>
  The four rotating files. \<open>join\<close> is \<open>path.join\<close> and \<open>logDir\<close> the resolved log
  directory.
\<close>

definition combinedFile :: "(string \<Rightarrow> string \<Rightarrow> string) \<Rightarrow> string \<Rightarrow> logConfig \<Rightarrow> transport" where
  "combinedFile join logDir lc =
     DailyRotateFile (join logDir ''application-%DATE%.log'') ''YYYY-MM-DD'' (maxSize lc)
       (maxFiles lc) fileFormat (Some (cfgLevel lc))"

definition errorFile :: "(string \<Rightarrow> string \<Rightarrow> string) \<Rightarrow> string \<Rightarrow> logConfig \<Rightarrow> transport" where
  "errorFile join logDir lc =
     DailyRotateFile (join logDir ''error-%DATE%.log'') ''YYYY-MM-DD'' (maxSize lc)
       (maxFiles lc) fileFormat (Some Error)"

definition exceptionFile :: "(string \<Rightarrow> string \<Rightarrow> string) \<Rightarrow> string \<Rightarrow> logConfig \<Rightarrow> transport" where
  "exceptionFile join logDir lc =
     DailyRotateFile (join logDir ''exceptions-%DATE%.log'') ''YYYY-MM-DD'' (maxSize lc)
       (maxFiles lc) fileFormat None"

definition rejectionFile :: "(string \<Rightarrow> string \<Rightarrow> string) \<Rightarrow> string \<Rightarrow> logConfig \<Rightarrow> transport" where
  "rejectionFile join logDir lc =
     DailyRotateFile (join logDir ''rejections-%DATE%.log'') ''YYYY-MM-DD'' (maxSize lc)
       (maxFiles lc) fileFormat None"

text \<open>
  \<open>createLogger\<close>. \<open>resolve\<close> and \<open>join\<close> are \<open>path.resolve\<close> and \<open>path.join\<close> of the
  runtime.
\<close>

definition createLogger ::
  "(string \<Rightarrow> string \<Rightarrow> string) \<Rightarrow> (string \<Rightarrow> string \<Rightarrow> string) \<Rightarrow> process \<Rightarrow> config \<Rightarrow> logger" where
  "createLogger resolve join proc cfg =
     (let lc = effectiveLogConfig cfg;
          logDir = resolve (cwd proc) (directory lc);
          isDevelopment = (env_NODE_ENV proc \<noteq> Some ''production'');
          console =
            (if isDevelopment \<or> env_ENABLE_CONSOLE_LOGS proc = Some ''true''
             then [Console (consoleFormat lc) (Some (cfgLevel lc))]
             else [])
      in \<lparr>lgLevel = cfgLevel lc,
          transports = console @ [combinedFile join logDir lc, errorFile join logDir lc],
          exitOnError = False,
          exceptionHandlers = [exceptionFile join logDir lc],
          rejectionHandlers = [rejectionFile join logDir lc]\<rparr>)"

text \<open>
  The severity order, as the repository's logging documentation numbers it: error 0,
  warn 1, info 2, http 3, debug 4.
\<close>

fun levelRank :: "level \<Rightarrow> nat" where
  "levelRank Error = 0"
| "levelRank Warn = 1"
| "levelRank Info = 2"
| "levelRank Http = 3"
| "levelRank Debug = 4"

text \<open>
  Modelled from the spec: the routing of a record to the logger's transports is done by
  winston, an external library. Following section 4.1 of the specification, a record goes
  to the destinations whose minimum level is at or below the record's severity, that is,
  to the transports whose level ranks at least as high as the record's. The logger's own
  level is the default for a transport constructed without one; every transport that
  \<open>createLogger\<close> puts in \<open>transports\<close> is constructed with a level.
\<close>

definition accepts :: "logger \<Rightarrow> transport \<Rightarrow> log_record \<Rightarrow> bool" where
  "accepts lg t r =
     (levelRank (level r) \<le> levelRank (case tLevel t of Some l \<Rightarrow> l | None \<Rightarrow> lgLevel lg))"

definition receivers :: "logger \<Rightarrow> log_record \<Rightarrow> transport list" where
  "receivers lg r = filter (\<lambda>t. accepts lg t r) (transports lg)"

section \<open>The pretty console format\<close>

text \<open>Decimal numerals, for numbers interpolated into template literals.\<close>

definition digit_char :: "nat \<Rightarrow> char" where
  "digit_char d = ''0123456789'' ! d"

fun showNat :: "nat \<Rightarrow> string" where
  "showNat n =
     (if n < 10 then [digit_char n] else showNat (n div 10) @ [digit_char (n mod 10)])"

declare showNat.simps [simp del]

definition showInt :: "int \<Rightarrow> string" where
  "showInt i = (if i < 0 then CHR ''-'' # showNat (nat (- i)) else showNat (nat i))"

text \<open>
  The string conversion a template literal applies to an interpolated value (numbers are
  integers in this model, and a plain object prints as \<open>[object Object]\<close>).
\<close>

fun toString :: "js_value \<Rightarrow> string" where
  "toString JS_undefined = ''undefined''"
| "toString JS_null = ''null''"
| "toString (JS_bool b) = (if b then ''true'' else ''false'')"
| "toString (JS_number n) = showInt n"
| "toString (JS_string s) = s"
| "toString (JS_object kvs) = ''[object Object]''"

text \<open>Reading a property of an object; a missing property reads as \<open>undefined\<close>.\<close>

definition getProp :: "(string \<times> js_value) list \<Rightarrow> string \<Rightarrow> js_value" where
  "getProp obj k = (case map_of obj k of Some v \<Rightarrow> v | None \<Rightarrow> JS_undefined)"

text \<open>
  The rest pattern \<open>{ level, message, timestamp, ...metadata }\<close>: every property of the
  info object other than the three named ones, in the object's order.
\<close>

definition metadataOf :: "(string \<times> js_value) list \<Rightarrow> (string \<times> js_value) list" where
  "metadataOf info =
     filter (\<lambda>kv. fst kv \<noteq> ''level'' \<and> fst kv \<noteq> ''message'' \<and> fst kv \<noteq> ''timestamp'') info"

text \<open>
  \<open>prettyFormat\<close>, the function given to \<open>printf\<close>, applied to the info object that reaches
  it. \<open>JSON_stringify v n\<close> is \<open>JSON.stringify(v, null, n)\<close> of the runtime.
\<close>

definition prettyFormat :: "(js_value \<Rightarrow> nat \<Rightarrow> string) \<Rightarrow> (string \<times> js_value) list \<Rightarrow> string" where
  "prettyFormat JSON_stringify info =
     (let msg = toString (getProp info ''timestamp'') @ '' ['' @ toString (getProp info ''level'')
                  @ '']: '' @ toString (getProp info ''message'');
          meta = metadataOf info
      in if length (map fst meta) > 0 then msg @ [CHR 0x0A] @ JSON_stringify (JS_object meta) 2
         else msg)"

section \<open>The debugging and error middlewares\<close>

text \<open>An \<open>Error\<close> object: \<open>name\<close>, \<open>message\<close> and the optional \<open>stack\<close>.\<close>

record js_error =
  errName :: string
  errMessage :: string
  errStack :: "string option"

definition optString :: "string option \<Rightarrow> js_value" where
  "optString s = (case s of Some v \<Rightarrow> JS_string v | None \<Rightarrow> JS_undefined)"

text \<open>
  \<open>errorLogger\<close>. \<open>next\<close> is the framework's continuation; the middleware's outcome is
  what \<open>next(err)\<close> does in the state the logging leaves. The response argument is not
  read.
\<close>

definition errorLogger :: "js_error \<Rightarrow> request \<Rightarrow> (js_error \<Rightarrow> world \<Rightarrow> 'r) \<Rightarrow> world \<Rightarrow> 'r" where
  "errorLogger err req next w =
     next err
       (logger_error ''Request error''
          [(''error'', JS_object
              [(''message'', JS_string (errMessage err)),
               (''stack'', optString (errStack err)),
               (''name'', JS_string (errName err))]),
           (''request'', JS_object
              [(''method'', JS_string (reqMethod req)),
               (''url'', JS_string (url req)),
               (''headers'', headers req),
               (''query'', query req),
               (''body'', body req),
               (''ip'', optString (ip req))])]
          w)"

text \<open>
  The function that \<open>detailedHttpLogger\<close> installs as \<open>res.end\<close>. An \<open>end\<close> function takes
  its receiver, the chunk, the encoding and the callback, and returns its result with the
  new state. \<open>startTime\<close> and \<open>originalEnd\<close> are the variables the closure captures; status
  code and headers are read from the response when the function is called.
\<close>

definition detailedEnd ::
  "request \<Rightarrow> int \<Rightarrow> ('t \<Rightarrow> 'c \<Rightarrow> 'e \<Rightarrow> 'k \<Rightarrow> world \<Rightarrow> 'r \<times> world)
     \<Rightarrow> 't \<Rightarrow> 'c \<Rightarrow> 'e \<Rightarrow> 'k \<Rightarrow> world \<Rightarrow> 'r \<times> world" where
  "detailedEnd req startTime originalEnd this chunk encoding callback w =
     (let duration = now w - startTime;
          w' = logger_debug ''Outgoing response''
                 [(''method'', JS_string (reqMethod req)),
                  (''url'', JS_string (url req)),
                  (''statusCode'', JS_number (statusCode (resObj w))),
                  (''duration'', JS_string (showInt duration @ ''ms'')),
                  (''headers'', getHeaders (resObj w))]
                 w
      in originalEnd this chunk encoding callback w')"

text \<open>
  \<open>detailedHttpLogger\<close>. \<open>originalEnd\<close> is \<open>res.end\<close> as the middleware finds it; \<open>next\<close>
  is the continuation, which runs with the replacement installed as \<open>res.end\<close>.
\<close>

definition detailedHttpLogger ::
  "request \<Rightarrow> ('t \<Rightarrow> 'c \<Rightarrow> 'e \<Rightarrow> 'k \<Rightarrow> world \<Rightarrow> 'r \<times> world)
     \<Rightarrow> (('t \<Rightarrow> 'c \<Rightarrow> 'e \<Rightarrow> 'k \<Rightarrow> world \<Rightarrow> 'r \<times> world) \<Rightarrow> world \<Rightarrow> 'a) \<Rightarrow> world \<Rightarrow> 'a" where
  "detailedHttpLogger req originalEnd next w =
     (let startTime = now w;
          w' = logger_debug ''Incoming request''
                 [(''method'', JS_string (reqMethod req)),
                  (''url'', JS_string (url req)),
                  (''headers'', headers req),
                  (''query'', query req),
                  (''body'', body req),
                  (''ip'', optString (ip req))]
                 w
      in next (detailedEnd req startTime originalEnd) w')"

section \<open>File output and fault capture\<close>

text \<open>The names of the severities as the logger writes them.\<close>

fun levelName :: "level \<Rightarrow> string" where
  "levelName Error = ''error''"
| "levelName Warn = ''warn''"
| "levelName Info = ''info''"
| "levelName Http = ''http''"
| "levelName Debug = ''debug''"

text \<open>A fault that the process observes outside any handler of the application.\<close>

datatype fault =
    UncaughtException js_error
  | UnhandledRejection js_value

text \<open>
  Modelled from the spec: what happens on such a fault is winston's exception and
  rejection handling, external to the repository. Following section 4.1 of the
  specification, each time the process observes an uncaught synchronous fault, every
  transport registered with \<open>logger.exceptions.handle\<close> receives one record of it, and
  likewise the transports registered with \<open>logger.rejections.handle\<close> for an unhandled
  rejection; no minimum level is consulted. The result lists the deliveries.
\<close>

fun capture :: "logger \<Rightarrow> fault \<Rightarrow> (transport \<times> fault) list" where
  "capture lg (UncaughtException e) = map (\<lambda>t. (t, UncaughtException e)) (exceptionHandlers lg)"
| "capture lg (UnhandledRejection v) = map (\<lambda>t. (t, UnhandledRejection v)) (rejectionHandlers lg)"

section \<open>JSON text\<close>

text \<open>
  The JSON encoding of the file destinations is logform's \<open>json()\<close> format, which
  serialises with safe-stable-stringify, an external library; the text is read back with
  \<open>JSON.parse\<close> of the runtime. Both are modelled here on the values of \<open>js_value\<close>:
  numbers are integers and strings are lists of code units below 256.
\<close>

text \<open>
  The stable serialiser writes the keys of every object in sorted order (code-unit order,
  as \<open>Array.prototype.sort\<close> compares strings). \<open>sortKeys\<close> is that reordering, at every
  depth.
\<close>

fun sortKeys :: "js_value \<Rightarrow> js_value"
  and sortMembers :: "(string \<times> js_value) list \<Rightarrow> (string \<times> js_value) list" where
  "sortKeys JS_undefined = JS_undefined"
| "sortKeys JS_null = JS_null"
| "sortKeys (JS_bool b) = JS_bool b"
| "sortKeys (JS_number n) = JS_number n"
| "sortKeys (JS_string s) = JS_string s"
| "sortKeys (JS_object kvs) = JS_object (sort_key fst (sortMembers kvs))"
| "sortMembers [] = []"
| "sortMembers (kv # kvs) = (fst kv, sortKeys (snd kv)) # sortMembers kvs"


definition hexDigit :: "nat \<Rightarrow> char" where
  "hexDigit d = ''0123456789abcdef'' ! d"

text \<open>
  The escapes of a JSON string: the quotation mark, the backslash, the five short escapes,
  and \<open>\u00XX\<close> for the other control characters.
\<close>

definition escapeChar :: "char \<Rightarrow> string" where
  "escapeChar c =
     (if c = CHR 0x22 then [CHR 0x5C, CHR 0x22]
      else if c = CHR 0x5C then [CHR 0x5C, CHR 0x5C]
      else if c = CHR 0x08 then [CHR 0x5C, CHR ''b'']
      else if c = CHR 0x09 then [CHR 0x5C, CHR ''t'']
      else if c = CHR 0x0A then [CHR 0x5C, CHR ''n'']
      else if c = CHR 0x0C then [CHR 0x5C, CHR ''f'']
      else if c = CHR 0x0D then [CHR 0x5C, CHR ''r'']
      else if (of_char c :: nat) < 32
        then [CHR 0x5C, CHR ''u'', CHR ''0'', CHR ''0'',
              hexDigit (of_char c div 16), hexDigit (of_char c mod 16)]
      else [c])"

definition quote :: "string \<Rightarrow> string" where
  "quote s = CHR 0x22 # concat (map escapeChar s) @ [CHR 0x22]"

text \<open>
  The compact JSON text of a value, keys in the order of the object. A property whose
  value is \<open>undefined\<close> is left out; for \<open>undefined\<close> itself the runtime returns no text,
  which the empty string stands for.
\<close>

fun ser :: "js_value \<Rightarrow> string"
  and serMembers :: "(string \<times> js_value) list \<Rightarrow> string" where
  "ser JS_undefined = []"
| "ser JS_null = ''null''"
| "ser (JS_bool b) = (if b then ''true'' else ''false'')"
| "ser (JS_number n) = showInt n"
| "ser (JS_string s) = quote s"
| "ser (JS_object kvs) = ''{'' @ serMembers kvs @ ''}''"
| "serMembers [] = []"
| "serMembers (kv # kvs) =
     (if snd kv = JS_undefined then serMembers kvs
      else quote (fst kv) @ '':'' @ ser (snd kv)
           @ (if serMembers kvs = [] then [] else '','' @ serMembers kvs))"

definition stableStringify :: "js_value \<Rightarrow> string" where
  "stableStringify v = ser (sortKeys v)"












text \<open>
  Assignment to a property: an existing key keeps its place and takes the new value, a new
  key goes to the end.
\<close>

fun assign :: "string \<Rightarrow> js_value \<Rightarrow> (string \<times> js_value) list \<Rightarrow> (string \<times> js_value) list" where
  "assign k v [] = [(k, v)]"
| "assign k v (p # ps) = (if fst p = k then (k, v) # ps else p # assign k v ps)"







section \<open>The logger's pipeline\<close>

text \<open>
  From a call of a logger method to the line a destination writes. The steps are those of
  winston and logform, the external libraries that \<open>createLogger\<close> configures; each
  definition names the library function it stands for.
\<close>

text \<open>
  The info object that travels through the formats: its string-keyed properties, and the
  two symbol-keyed ones, \<open>LEVEL\<close> (the severity as logged) and \<open>MESSAGE\<close> (the rendered
  line).
\<close>

record info =
  props :: "(string \<times> js_value) list"
  LEVEL :: level
  MESSAGE :: string

text \<open>What a condition takes for true.\<close>

fun truthy :: "js_value \<Rightarrow> bool" where
  "truthy JS_undefined = False"
| "truthy JS_null = False"
| "truthy (JS_bool b) = b"
| "truthy (JS_number n) = (n \<noteq> 0)"
| "truthy (JS_string s) = (s \<noteq> [])"
| "truthy (JS_object kvs) = True"

text \<open>
  Whether the message matches winston's \<open>formatRegExp\<close>, \<open>/%[scdjifoO%]/\<close>: a percent
  sign followed by one of the listed characters.
\<close>

fun hasFormatToken :: "string \<Rightarrow> bool" where
  "hasFormatToken [] = False"
| "hasFormatToken [c] = False"
| "hasFormatToken (c # d # cs) =
     ((c = CHR ''%'' \<and> d \<in> set ''scdjifoO%'') \<or> hasFormatToken (d # cs))"

text \<open>
  winston's \<open>Logger.log(level, msg, meta)\<close>. When the message has a format token the
  metadata is left to the splat format, which this logger does not use, and the info
  object is \<open>{level, message}\<close> alone. Otherwise the info object is
  \<open>Object.assign({}, meta, {level, message})\<close>, so the logger's own level and message
  replace metadata properties of these names, and a truthy \<open>meta.message\<close> is appended
  to the message after a space. A record without metadata stands for a call without the
  metadata argument as well; the info object then has the same two properties, and the
  order of the two is immaterial to both encodings.
\<close>

definition logInfo :: "log_record \<Rightarrow> info" where
  "logInfo r =
     (let own = [(''level'', JS_string (levelName (level r))),
                 (''message'', JS_string (message r))]
      in if hasFormatToken (message r)
         then \<lparr>props = own, LEVEL = level r, MESSAGE = []\<rparr>
         else
           (let merged = fold (\<lambda>kv obj. assign (fst kv) (snd kv) obj) own (metadata r);
                appended =
                  (if truthy (getProp (metadata r) ''message'')
                   then assign ''message''
                          (JS_string
                             (message r @ '' '' @ toString (getProp (metadata r) ''message'')))
                          merged
                   else merged)
            in \<lparr>props = appended, LEVEL = level r, MESSAGE = []\<rparr>))"

text \<open>
  What the formats take from their surroundings: the clock, read and formatted with a
  pattern by the \<open>timestamp\<close> format; whether the colour library finds colours supported;
  and \<open>JSON.stringify(v, null, n)\<close> of the runtime.
\<close>

record runtime =
  formatDate :: "string \<Rightarrow> string"
  colorsEnabled :: bool
  stringifyIndented :: "js_value \<Rightarrow> nat \<Rightarrow> string"

text \<open>
  The colours of the npm levels (error red, warn yellow, info and http green, debug blue)
  as ANSI codes, and the text wrapped in them: the colour's code before, the
  default-colour code 39 after.
\<close>

fun ansiColor :: "level \<Rightarrow> string" where
  "ansiColor Error = ''31''"
| "ansiColor Warn = ''33''"
| "ansiColor Info = ''32''"
| "ansiColor Http = ''32''"
| "ansiColor Debug = ''34''"

definition colorize :: "bool \<Rightarrow> level \<Rightarrow> string \<Rightarrow> string" where
  "colorize enabled lvl txt =
     (if enabled then [CHR 0x1B] @ ''['' @ ansiColor lvl @ ''m'' @ txt @ [CHR 0x1B] @ ''[39m''
      else txt)"

text \<open>
  The formats of logform. \<open>timestamp\<close> sets the property \<open>timestamp\<close>; \<open>errors\<close> changes
  only an info object that is or carries an \<open>Error\<close>, which a record of a message text is
  not; \<open>json\<close> renders the properties with the stable serialiser; \<open>colorize\<close> wraps the
  level in the colour of \<open>LEVEL\<close>; \<open>align\<close> puts a tab before the message; \<open>printf\<close>
  renders with the given function, here \<open>prettyFormat\<close>; \<open>combine\<close> applies its formats
  from left to right.
\<close>

fun transform :: "runtime \<Rightarrow> format \<Rightarrow> info \<Rightarrow> info" where
  "transform rt (Timestamp pattern) i =
     i\<lparr>props := assign ''timestamp'' (JS_string (formatDate rt pattern)) (props i)\<rparr>"
| "transform rt (Errors stack) i = i"
| "transform rt Json i = i\<lparr>MESSAGE := stableStringify (JS_object (props i))\<rparr>"
| "transform rt Colorize i =
     i\<lparr>props := assign ''level''
          (JS_string
             (colorize (colorsEnabled rt) (LEVEL i) (toString (getProp (props i) ''level''))))
          (props i)\<rparr>"
| "transform rt Align i =
     i\<lparr>props := assign ''message''
          (JS_string (CHR 0x09 # toString (getProp (props i) ''message''))) (props i)\<rparr>"
| "transform rt PrettyFormat i =
     i\<lparr>MESSAGE := prettyFormat (stringifyIndented rt) (props i)\<rparr>"
| "transform rt (Combine fs) i = fold (transform rt) fs i"

text \<open>The line the console destination writes for a record.\<close>

definition consoleLine :: "runtime \<Rightarrow> logConfig \<Rightarrow> log_record \<Rightarrow> string" where
  "consoleLine rt lc r = MESSAGE (transform rt (consoleFormat lc) (logInfo r))"



section \<open>Properties of the string operations\<close>

lemma startsWith_iff: "startsWith s p \<longleftrightarrow> (\<exists>rest. s = p @ rest)"
  by (induction s p rule: startsWith.induct) auto

lemma includes_iff: "includesStr s sub \<longleftrightarrow> (\<exists>before after. s = before @ sub @ after)"
proof (induction s)
  case Nil
  show ?case by (simp add: startsWith_iff)
next
  case (Cons c cs)
  show ?case
  proof
    assume "includesStr (c # cs) sub"
    then consider "startsWith (c # cs) sub" | "includesStr cs sub" by auto
    then show "\<exists>before after. c # cs = before @ sub @ after"
    proof cases
      case 1
      then obtain rest where "c # cs = sub @ rest" by (auto simp: startsWith_iff)
      then have "c # cs = [] @ sub @ rest" by simp
      then show ?thesis by blast
    next
      case 2
      with Cons.IH obtain b a where "cs = b @ sub @ a" by blast
      then have "c # cs = (c # b) @ sub @ a" by simp
      then show ?thesis by blast
    qed
  next
    assume "\<exists>before after. c # cs = before @ sub @ after"
    then obtain b a where eq: "c # cs = b @ sub @ a" by blast
    show "includesStr (c # cs) sub"
    proof (cases b)
      case Nil
      with eq have "startsWith (c # cs) sub" by (auto simp: startsWith_iff)
      then show ?thesis by simp
    next
      case (Cons b0 bs)
      with eq have "cs = bs @ sub @ a" by simp
      with Cons.IH have "includesStr cs sub" by blast
      then show ?thesis by simp
    qed
  qed
qed

section \<open>Properties of trimming\<close>

lemma trimTrailing_decomp:
  "s = trimTrailing s @ rev (takeWhile isWhiteSpace (rev s))"
proof -
  have "s = rev (takeWhile isWhiteSpace (rev s) @ dropWhile isWhiteSpace (rev s))"
    by simp
  also have "\<dots> = rev (dropWhile isWhiteSpace (rev s)) @ rev (takeWhile isWhiteSpace (rev s))"
    by (rule rev_append)
  finally show ?thesis
    by (simp only: trimTrailing_def)
qed

lemma trim_via_trimTrailing: "trim s = trimTrailing (dropWhile isWhiteSpace s)"
  by (simp add: trim_def trimTrailing_def)

lemma trim_decomp:
  "s = takeWhile isWhiteSpace s @ trim s
         @ rev (takeWhile isWhiteSpace (rev (dropWhile isWhiteSpace s)))"
proof -
  have "s = takeWhile isWhiteSpace s @ dropWhile isWhiteSpace s" by simp
  also have "dropWhile isWhiteSpace s =
      trim s @ rev (takeWhile isWhiteSpace (rev (dropWhile isWhiteSpace s)))"
    using trimTrailing_decomp [of "dropWhile isWhiteSpace s"]
    by (simp add: trim_via_trimTrailing)
  finally show ?thesis .
qed

lemma all_takeWhile: "list_all P (takeWhile P xs)"
  by (induction xs) auto

lemma trimTrailing_last: "trimTrailing s \<noteq> [] \<Longrightarrow> \<not> isWhiteSpace (last (trimTrailing s))"
proof -
  assume ne: "trimTrailing s \<noteq> []"
  then have d: "dropWhile isWhiteSpace (rev s) \<noteq> []"
    by (simp add: trimTrailing_def)
  then have "\<not> isWhiteSpace (hd (dropWhile isWhiteSpace (rev s)))"
    by (rule hd_dropWhile)
  with d show ?thesis
    by (simp add: trimTrailing_def last_rev)
qed

lemma trimTrailing_hd:
  "trimTrailing s \<noteq> [] \<Longrightarrow> hd (trimTrailing s) = hd s"
proof -
  assume ne: "trimTrailing s \<noteq> []"
  have "hd s = hd (trimTrailing s @ rev (takeWhile isWhiteSpace (rev s)))"
    using trimTrailing_decomp [of s] by simp
  with ne show ?thesis by simp
qed

lemma trim_hd: "trim s \<noteq> [] \<Longrightarrow> \<not> isWhiteSpace (hd (trim s))"
proof -
  assume ne: "trim s \<noteq> []"
  have d: "dropWhile isWhiteSpace s \<noteq> []"
  proof
    assume e: "dropWhile isWhiteSpace s = []"
    have "trim s = []" by (simp only: trim_def e rev.simps dropWhile.simps)
    with ne show False by simp
  qed
  from ne have "hd (trim s) = hd (dropWhile isWhiteSpace s)"
    by (simp add: trim_via_trimTrailing trimTrailing_hd)
  with d show ?thesis
    by (simp add: hd_dropWhile)
qed

lemma trim_last: "trim s \<noteq> [] \<Longrightarrow> \<not> isWhiteSpace (last (trim s))"
  by (simp add: trim_via_trimTrailing trimTrailing_last)

section \<open>Properties of JSON text\<close>



lemma hexDigit_not_special:
  "d < 16 \<Longrightarrow> hexDigit d \<noteq> CHR 0x22 \<and> hexDigit d \<noteq> CHR 0x5C"
proof -
  assume "d < 16"
  then consider "d = 0" | "d = 1" | "d = 2" | "d = 3" | "d = 4" | "d = 5" | "d = 6" | "d = 7"
    | "d = 8" | "d = 9" | "d = 10" | "d = 11" | "d = 12" | "d = 13" | "d = 14" | "d = 15"
    by atomize_elim arith
  then show ?thesis
    by cases (simp_all add: hexDigit_def)
qed















lemma assign_fresh: "k \<notin> set (map fst ps) \<Longrightarrow> assign k v ps = ps @ [(k, v)]"
  by (induction ps) auto



























section \<open>Properties of the logger's pipeline\<close>

lemma getProp_assign: "getProp (assign k v ps) k' = (if k' = k then v else getProp ps k')"
  by (induction ps) (auto simp: getProp_def)

lemma metadataOf_assign:
  "k = ''level'' \<or> k = ''message'' \<or> k = ''timestamp''
     \<Longrightarrow> metadataOf (assign k v ps) = metadataOf ps"
  by (induction ps) (auto simp: metadataOf_def)

lemma metadataOf_plain:
  assumes "''timestamp'' \<notin> set (map fst m)" and "''level'' \<notin> set (map fst m)"
    and "''message'' \<notin> set (map fst m)"
  shows "metadataOf m = m"
  unfolding metadataOf_def using assms by (induction m) auto

lemma map_of_absent: "k \<notin> set (map fst m) \<Longrightarrow> map_of m k = None"
  by (simp add: map_of_eq_None_iff)

lemma getProp_absent: "k \<notin> set (map fst m) \<Longrightarrow> getProp m k = JS_undefined"
  using map_of_absent [of k m] by (simp add: getProp_def)

lemma getProp_append_absent: "k \<notin> set (map fst m) \<Longrightarrow> getProp (m @ ps) k = getProp ps k"
  using map_of_absent [of k m] by (simp add: getProp_def map_add_def)

lemma logInfo_plain:
  assumes "metadata r = [] \<or> \<not> hasFormatToken (message r)"
    and "''level'' \<notin> set (map fst (metadata r))"
    and "''message'' \<notin> set (map fst (metadata r))"
  shows "logInfo r =
    \<lparr>props = metadata r @ [(''level'', JS_string (levelName (level r))),
                            (''message'', JS_string (message r))],
     LEVEL = level r, MESSAGE = []\<rparr>"
proof (cases "hasFormatToken (message r)")
  case True
  with assms(1) have "metadata r = []" by simp
  with True show ?thesis
    by (simp add: logInfo_def)
next
  case False
  have lv: "assign ''level'' v (metadata r) = metadata r @ [(''level'', v)]" for v
    using assms(2) by (rule assign_fresh)
  have "''message'' \<notin> set (map fst (metadata r @ [(''level'', v)]))" for v :: js_value
    using assms(3) by simp
  then have ms: "assign ''message'' w (metadata r @ [(''level'', v)])
      = (metadata r @ [(''level'', v)]) @ [(''message'', w)]" for v w
    by (rule assign_fresh)
  have quiet: "\<not> truthy (getProp (metadata r) ''message'')"
    using getProp_absent [OF assms(3)] by simp
  from False quiet show ?thesis
    by (simp add: logInfo_def Let_def lv ms)
qed

lemma logInfo_level:
  "LEVEL (logInfo r) = level r"
  "getProp (props (logInfo r)) ''level'' = JS_string (levelName (level r))"
  by (simp_all add: logInfo_def Let_def getProp_assign) (simp add: getProp_def)

section \<open>Claims about the skip predicate\<close>

text \<open>
  C2. The skip predicate is true exactly when the request URL starts with one of the three
  exclusion-list entries (\<open>/health\<close>, \<open>/metrics\<close>, \<open>/favicon.ico\<close>), or the URL contains
  the substring \<open>health\<close> and the response status code is 200; in every other case it is
  false.
\<close>

theorem shouldSkipLog_characterisation:
  "shouldSkipLog req res \<longleftrightarrow>
     ((\<exists>rest. url req = ''/health'' @ rest)
      \<or> (\<exists>rest. url req = ''/metrics'' @ rest)
      \<or> (\<exists>rest. url req = ''/favicon.ico'' @ rest))
     \<or> ((\<exists>before after. url req = before @ ''health'' @ after) \<and> statusCode res = 200)"
  unfolding shouldSkipLog_def skipRoutes_def
  by (simp only: startsWith_iff includes_iff list_ex_Nil_iff list_ex_Cons_iff) auto

text \<open>
  C1 (as stated). Every request whose path contains \<open>health\<close> and whose final status is not
  200 is not skipped and produces one access-log emission. This fails for the path
  \<open>/health\<close> itself: it starts with an exclusion-list entry, so it is skipped with status
  500 as well and nothing is emitted.
\<close>

theorem health_500_is_skipped:
  "includesStr (url \<lparr>url = ''/health'', reqMethod = ''GET'', headers = JS_undefined,
        query = JS_undefined, body = JS_undefined, ip = None\<rparr>) ''health''
   \<and> statusCode \<lparr>statusCode = 500, getHeaders = JS_undefined\<rparr> \<noteq> 200
   \<and> shouldSkipLog
        \<lparr>url = ''/health'', reqMethod = ''GET'', headers = JS_undefined,
         query = JS_undefined, body = JS_undefined, ip = None\<rparr>
        \<lparr>statusCode = 500, getHeaders = JS_undefined\<rparr>
   \<and> sink (httpLogger (\<lambda>rq rs. ''GET /health 500'')
        \<lparr>url = ''/health'', reqMethod = ''GET'', headers = JS_undefined,
         query = JS_undefined, body = JS_undefined, ip = None\<rparr>
        \<lparr>sink = [], now = 0, resObj = \<lparr>statusCode = 500, getHeaders = JS_undefined\<rparr>\<rparr>) = []"
  by (simp add: httpLogger_def shouldSkipLog_def skipRoutes_def)

text \<open>
  C1 (amended). A request whose URL starts with an exclusion-list entry is skipped whatever
  the status, and nothing is emitted. For a request whose URL contains \<open>health\<close> and
  starts with no exclusion-list entry, the skip predicate holds exactly when the status is
  200: with any other status exactly one record, of severity http, is added to the sink,
  and with status 200 none is.
\<close>

theorem health_like_emission:
  "(list_ex (\<lambda>route. startsWith (url req) route) skipRoutes \<longrightarrow>
      shouldSkipLog req (resObj w) \<and> sink (httpLogger formatLine req w) = sink w)
   \<and> (includesStr (url req) ''health''
        \<and> \<not> list_ex (\<lambda>route. startsWith (url req) route) skipRoutes \<longrightarrow>
      (shouldSkipLog req (resObj w) \<longleftrightarrow> statusCode (resObj w) = 200)
      \<and> (statusCode (resObj w) = 200 \<longrightarrow> sink (httpLogger formatLine req w) = sink w)
      \<and> (statusCode (resObj w) \<noteq> 200 \<longrightarrow>
           sink (httpLogger formatLine req w) =
             sink w @ [\<lparr>level = Http, message = trim (formatLine req (resObj w)), metadata = []\<rparr>]))"
  by (simp add: httpLogger_def shouldSkipLog_def logStream_write_def logger_http_def
      logger_log_def)

theorem health_like_emission_witness:
  "includesStr ''/api/health'' ''health''
   \<and> \<not> list_ex (\<lambda>route. startsWith ''/api/health'' route) skipRoutes
   \<and> list_ex (\<lambda>route. startsWith ''/healthz'' route) skipRoutes
   \<and> sink (httpLogger (\<lambda>rq rs. ''GET /api/health 500'')
        \<lparr>url = ''/api/health'', reqMethod = ''GET'', headers = JS_undefined,
         query = JS_undefined, body = JS_undefined, ip = None\<rparr>
        \<lparr>sink = [], now = 0, resObj = \<lparr>statusCode = 500, getHeaders = JS_undefined\<rparr>\<rparr>)
     = [\<lparr>level = Http, message = ''GET /api/health 500'', metadata = []\<rparr>]
   \<and> sink (httpLogger (\<lambda>rq rs. ''GET /api/health 200'')
        \<lparr>url = ''/api/health'', reqMethod = ''GET'', headers = JS_undefined,
         query = JS_undefined, body = JS_undefined, ip = None\<rparr>
        \<lparr>sink = [], now = 0, resObj = \<lparr>statusCode = 200, getHeaders = JS_undefined\<rparr>\<rparr>) = []
   \<and> sink (httpLogger (\<lambda>rq rs. ''GET /healthz 503'')
        \<lparr>url = ''/healthz'', reqMethod = ''GET'', headers = JS_undefined,
         query = JS_undefined, body = JS_undefined, ip = None\<rparr>
        \<lparr>sink = [], now = 0, resObj = \<lparr>statusCode = 503, getHeaders = JS_undefined\<rparr>\<rparr>) = []"
  using
    health_like_emission [of
      "\<lparr>url = ''/api/health'', reqMethod = ''GET'', headers = JS_undefined,
        query = JS_undefined, body = JS_undefined, ip = None\<rparr>"
      "\<lparr>sink = [], now = 0, resObj = \<lparr>statusCode = 500, getHeaders = JS_undefined\<rparr>\<rparr>"
      "\<lambda>rq rs. ''GET /api/health 500''"]
    health_like_emission [of
      "\<lparr>url = ''/api/health'', reqMethod = ''GET'', headers = JS_undefined,
        query = JS_undefined, body = JS_undefined, ip = None\<rparr>"
      "\<lparr>sink = [], now = 0, resObj = \<lparr>statusCode = 200, getHeaders = JS_undefined\<rparr>\<rparr>"
      "\<lambda>rq rs. ''GET /api/health 200''"]
    health_like_emission [of
      "\<lparr>url = ''/healthz'', reqMethod = ''GET'', headers = JS_undefined,
        query = JS_undefined, body = JS_undefined, ip = None\<rparr>"
      "\<lparr>sink = [], now = 0, resObj = \<lparr>statusCode = 503, getHeaders = JS_undefined\<rparr>\<rparr>"
      "\<lambda>rq rs. ''GET /healthz 503''"]
  by (simp add: skipRoutes_def trim_def isWhiteSpace_def)

section \<open>Claims about the write-stream adapter\<close>

text \<open>
  C8 (as stated). For every input string, \<open>write\<close> emits the line with its trailing white
  space trimmed, at severity http. The line \<open>'' GET /''\<close>, which begins with a space, is
  emitted as \<open>''GET /''\<close>: the leading space is removed too.
\<close>

theorem logStream_write_trims_leading:
  "sink (logStream_write '' GET /'' \<lparr>sink = [], now = 0,
        resObj = \<lparr>statusCode = 200, getHeaders = JS_undefined\<rparr>\<rparr>)
     = [\<lparr>level = Http, message = ''GET /'', metadata = []\<rparr>]
   \<and> trimTrailing '' GET /'' = '' GET /''
   \<and> trimTrailing '' GET /'' \<noteq> ''GET /''"
  by (simp add: logStream_write_def logger_http_def logger_log_def trim_def trimTrailing_def
      isWhiteSpace_def)

text \<open>
  C8 (amended). For every input string, \<open>write\<close> adds exactly one record to the sink, of
  severity http and without metadata, whose message is the line with the white space at
  both ends removed: the line is the message between two runs of white space, the
  message neither begins nor ends with white space, and it is what trimming the trailing
  white space leaves of the line once its leading white space is dropped. Clock and
  response are left as they were.
\<close>

theorem logStream_write_emits_trimmed:
  "sink (logStream_write line w)
     = sink w @ [\<lparr>level = Http, message = trim line, metadata = []\<rparr>]
   \<and> now (logStream_write line w) = now w
   \<and> resObj (logStream_write line w) = resObj w
   \<and> (\<exists>before after. line = before @ trim line @ after
        \<and> list_all isWhiteSpace before \<and> list_all isWhiteSpace after)
   \<and> (trim line = [] \<or> (\<not> isWhiteSpace (hd (trim line)) \<and> \<not> isWhiteSpace (last (trim line))))
   \<and> trim line = trimTrailing (dropWhile isWhiteSpace line)"
proof -
  have emit: "sink (logStream_write line w)
      = sink w @ [\<lparr>level = Http, message = trim line, metadata = []\<rparr>]"
    by (simp add: logStream_write_def logger_http_def logger_log_def)
  have frame: "now (logStream_write line w) = now w"
      "resObj (logStream_write line w) = resObj w"
    by (simp_all add: logStream_write_def logger_http_def logger_log_def)
  have "list_all isWhiteSpace (takeWhile isWhiteSpace line)"
    by (rule all_takeWhile)
  moreover have "list_all isWhiteSpace
      (rev (takeWhile isWhiteSpace (rev (dropWhile isWhiteSpace line))))"
    using all_takeWhile [of isWhiteSpace "rev (dropWhile isWhiteSpace line)"]
    by (simp add: list_all_iff)
  ultimately have parts: "\<exists>before after. line = before @ trim line @ after
      \<and> list_all isWhiteSpace before \<and> list_all isWhiteSpace after"
    using trim_decomp [of line] by blast
  have ends: "trim line = [] \<or> (\<not> isWhiteSpace (hd (trim line)) \<and> \<not> isWhiteSpace (last (trim line)))"
    using trim_hd [of line] trim_last [of line] by blast
  from emit frame parts ends trim_via_trimTrailing [of line] show ?thesis
    by blast
qed

section \<open>Claims about configuration loading\<close>




section \<open>Claims about the logger's destinations\<close>

lemma levelRank_zero: "levelRank l = 0 \<longleftrightarrow> l = Error"
  by (cases l) simp_all

text \<open>
  C4. Whatever the configured minimum level, the logger has a combined file destination
  whose level is the configured one and an error-only file destination whose level is
  \<open>error\<close>. A record whose severity is strictly below the configured minimum (it ranks
  after it) is received by neither of the two, and the error-only destination receives a
  record exactly when the record's severity is \<open>error\<close>.
\<close>

theorem file_destinations_level_filter:
  "combinedFile join (resolve (cwd proc) (directory (effectiveLogConfig cfg))) (effectiveLogConfig cfg)
      \<in> set (transports (createLogger resolve join proc cfg))
   \<and> errorFile join (resolve (cwd proc) (directory (effectiveLogConfig cfg))) (effectiveLogConfig cfg)
      \<in> set (transports (createLogger resolve join proc cfg))
   \<and> tLevel (combinedFile join (resolve (cwd proc) (directory (effectiveLogConfig cfg)))
        (effectiveLogConfig cfg)) = Some (cfgLevel (effectiveLogConfig cfg))
   \<and> tLevel (errorFile join (resolve (cwd proc) (directory (effectiveLogConfig cfg)))
        (effectiveLogConfig cfg)) = Some Error
   \<and> (levelRank (cfgLevel (effectiveLogConfig cfg)) < levelRank (level r) \<longrightarrow>
        combinedFile join (resolve (cwd proc) (directory (effectiveLogConfig cfg)))
            (effectiveLogConfig cfg)
          \<notin> set (receivers (createLogger resolve join proc cfg) r)
        \<and> errorFile join (resolve (cwd proc) (directory (effectiveLogConfig cfg)))
            (effectiveLogConfig cfg)
          \<notin> set (receivers (createLogger resolve join proc cfg) r))
   \<and> (errorFile join (resolve (cwd proc) (directory (effectiveLogConfig cfg)))
          (effectiveLogConfig cfg)
        \<in> set (receivers (createLogger resolve join proc cfg) r)
       \<longleftrightarrow> level r = Error)"
  by (auto simp: createLogger_def Let_def receivers_def accepts_def combinedFile_def
      errorFile_def levelRank_zero)

theorem file_destinations_level_filter_witness:
  "levelRank (cfgLevel (effectiveLogConfig \<lparr>logging = None\<rparr>))
     < levelRank (level \<lparr>level = Debug, message = ''cache miss'', metadata = []\<rparr>)
   \<and> receivers
        (createLogger (\<lambda>a b. a @ ''/'' @ b) (\<lambda>a b. a @ ''/'' @ b)
          \<lparr>env_NODE_ENV = Some ''production'', env_ENABLE_CONSOLE_LOGS = None, cwd = ''/app''\<rparr>
          \<lparr>logging = None\<rparr>)
        \<lparr>level = Debug, message = ''cache miss'', metadata = []\<rparr> = []
   \<and> receivers
        (createLogger (\<lambda>a b. a @ ''/'' @ b) (\<lambda>a b. a @ ''/'' @ b)
          \<lparr>env_NODE_ENV = Some ''production'', env_ENABLE_CONSOLE_LOGS = None, cwd = ''/app''\<rparr>
          \<lparr>logging = None\<rparr>)
        \<lparr>level = Error, message = ''boom'', metadata = []\<rparr>
      = [combinedFile (\<lambda>a b. a @ ''/'' @ b) ''/app/logs'' (effectiveLogConfig \<lparr>logging = None\<rparr>),
         errorFile (\<lambda>a b. a @ ''/'' @ b) ''/app/logs'' (effectiveLogConfig \<lparr>logging = None\<rparr>)]"
  using file_destinations_level_filter [of "\<lambda>a b. a @ ''/'' @ b" "\<lambda>a b. a @ ''/'' @ b"
      "\<lparr>env_NODE_ENV = Some ''production'', env_ENABLE_CONSOLE_LOGS = None, cwd = ''/app''\<rparr>"
      "\<lparr>logging = None\<rparr>"
      "\<lparr>level = Debug, message = ''cache miss'', metadata = []\<rparr>"]
  by (simp add: createLogger_def Let_def receivers_def accepts_def combinedFile_def
      errorFile_def effectiveLogConfig_def)

section \<open>Claims about the pretty console format\<close>

lemma metadataOf_keys:
  "set (map fst (metadataOf info)) = set (map fst info) - {''level'', ''message'', ''timestamp''}"
  by (auto simp: metadataOf_def)

text \<open>
  C7 (as stated). Every record rendered by the pretty console encoding comes out as
  exactly \<open><timestamp> [<level>]: <message>\<close>. The record of severity info with the
  message \<open>User login\<close> and no metadata does not: the level is wrapped in colour codes
  when colours are enabled, and with or without colours a tab stands before the message.
\<close>

theorem console_line_has_colour_and_tab:
  "consoleLine
      \<lparr>formatDate = (\<lambda>pattern. ''2025-12-13 12:47:10''), colorsEnabled = True,
       stringifyIndented = (\<lambda>v n. ''{}'')\<rparr>
      \<lparr>cfgLevel = Debug, cfgFormat = ''pretty'', directory = ''logs'', maxSize = ''20m'',
       maxFiles = ''14d''\<rparr>
      \<lparr>level = Info, message = ''User login'', metadata = []\<rparr>
     = ''2025-12-13 12:47:10 ['' @ [CHR 0x1B] @ ''[32minfo'' @ [CHR 0x1B] @ ''[39m]: ''
         @ [CHR 0x09] @ ''User login''
   \<and> consoleLine
      \<lparr>formatDate = (\<lambda>pattern. ''2025-12-13 12:47:10''), colorsEnabled = False,
       stringifyIndented = (\<lambda>v n. ''{}'')\<rparr>
      \<lparr>cfgLevel = Debug, cfgFormat = ''pretty'', directory = ''logs'', maxSize = ''20m'',
       maxFiles = ''14d''\<rparr>
      \<lparr>level = Info, message = ''User login'', metadata = []\<rparr>
     = ''2025-12-13 12:47:10 [info]: '' @ [CHR 0x09] @ ''User login''
   \<and> ''2025-12-13 12:47:10 [info]: '' @ [CHR 0x09] @ ''User login''
     \<noteq> ''2025-12-13 12:47:10 [info]: User login''
   \<and> ''2025-12-13 12:47:10 ['' @ [CHR 0x1B] @ ''[32minfo'' @ [CHR 0x1B] @ ''[39m]: ''
         @ [CHR 0x09] @ ''User login''
     \<noteq> ''2025-12-13 12:47:10 [info]: User login''"
  by (simp add: consoleLine_def consoleFormat_def baseFormat_def logInfo_def colorize_def
      prettyFormat_def getProp_def metadataOf_def Let_def)

text \<open>
  C7 (amended). When the configured format is \<open>pretty\<close>, the console line of every
  record is exactly \<open><timestamp> [<level>]: <tab><message>\<close>: the timestamp is the clock
  formatted with the pattern \<open>YYYY-MM-DD HH:mm:ss\<close>, the level is the name of the
  severity, wrapped in the ANSI colour codes of the severity when colours are enabled, and
  a tab precedes the message. When the metadata is non-empty a line feed and the rendering
  of the metadata with indentation 2 follow; when it is empty nothing follows. Message and
  metadata are those of the info object the logger builds from the record: they are the
  record's own whenever its metadata has none of the keys \<open>timestamp\<close>, \<open>level\<close> and
  \<open>message\<close> and its message has no format token (or the metadata is empty).
\<close>

theorem console_line_layout:
  assumes "cfgFormat lc = ''pretty''"
  shows "consoleLine rt lc r
      = formatDate rt ''YYYY-MM-DD HH:mm:ss''
        @ '' ['' @ colorize (colorsEnabled rt) (level r) (levelName (level r)) @ '']: ''
        @ [CHR 0x09] @ toString (getProp (props (logInfo r)) ''message'')
        @ (if metadataOf (props (logInfo r)) = [] then []
           else [CHR 0x0A]
             @ stringifyIndented rt (JS_object (metadataOf (props (logInfo r)))) 2)
    \<and> ((metadata r = [] \<or> \<not> hasFormatToken (message r))
         \<and> ''timestamp'' \<notin> set (map fst (metadata r))
         \<and> ''level'' \<notin> set (map fst (metadata r))
         \<and> ''message'' \<notin> set (map fst (metadata r))
        \<longrightarrow> toString (getProp (props (logInfo r)) ''message'') = message r
          \<and> metadataOf (props (logInfo r)) = metadata r)"
proof -
  have line: "consoleLine rt lc r
      = formatDate rt ''YYYY-MM-DD HH:mm:ss''
        @ '' ['' @ colorize (colorsEnabled rt) (level r) (levelName (level r)) @ '']: ''
        @ [CHR 0x09] @ toString (getProp (props (logInfo r)) ''message'')
        @ (if metadataOf (props (logInfo r)) = [] then []
           else [CHR 0x0A]
             @ stringifyIndented rt (JS_object (metadataOf (props (logInfo r)))) 2)"
    unfolding consoleLine_def consoleFormat_def baseFormat_def
    using assms
    by (simp add: prettyFormat_def Let_def getProp_assign metadataOf_assign logInfo_level)
  have own: "toString (getProp (props (logInfo r)) ''message'') = message r
      \<and> metadataOf (props (logInfo r)) = metadata r"
    if plain: "metadata r = [] \<or> \<not> hasFormatToken (message r)"
      and ts: "''timestamp'' \<notin> set (map fst (metadata r))"
      and lv: "''level'' \<notin> set (map fst (metadata r))"
      and ms: "''message'' \<notin> set (map fst (metadata r))"
  proof -
    let ?own = "[(''level'', JS_string (levelName (level r))),
                 (''message'', JS_string (message r))]"
    have start: "props (logInfo r) = metadata r @ ?own"
      using logInfo_plain [OF plain lv ms] by simp
    have "getProp (metadata r @ ?own) ''message'' = getProp ?own ''message''"
      by (rule getProp_append_absent [OF ms])
    then have msg: "getProp (metadata r @ ?own) ''message'' = JS_string (message r)"
      by (simp add: getProp_def)
    have meta: "metadataOf (metadata r @ ?own) = metadata r"
      using metadataOf_plain [OF ts lv ms] by (simp add: metadataOf_def)
    from msg meta show ?thesis
      by (simp add: start)
  qed
  from line own show ?thesis
    by blast
qed

theorem console_line_layout_witness:
  "\<not> hasFormatToken ''User login''
   \<and> ''level'' \<notin> set (map fst [(''userId'', JS_number 12345)])
   \<and> consoleLine
      \<lparr>formatDate = (\<lambda>pattern. ''2025-12-13 12:47:10''), colorsEnabled = True,
       stringifyIndented = (\<lambda>v n. ''{ userId: 12345 }'')\<rparr>
      \<lparr>cfgLevel = Debug, cfgFormat = ''pretty'', directory = ''logs'', maxSize = ''20m'',
       maxFiles = ''14d''\<rparr>
      \<lparr>level = Info, message = ''User login'', metadata = [(''userId'', JS_number 12345)]\<rparr>
     = ''2025-12-13 12:47:10 ['' @ [CHR 0x1B] @ ''[32minfo'' @ [CHR 0x1B] @ ''[39m]: ''
         @ [CHR 0x09] @ ''User login'' @ [CHR 0x0A] @ ''{ userId: 12345 }''
   \<and> consoleLine
      \<lparr>formatDate = (\<lambda>pattern. ''2025-12-13 12:47:11''), colorsEnabled = False,
       stringifyIndented = (\<lambda>v n. ''{}'')\<rparr>
      \<lparr>cfgLevel = Debug, cfgFormat = ''pretty'', directory = ''logs'', maxSize = ''20m'',
       maxFiles = ''14d''\<rparr>
      \<lparr>level = Warn, message = ''API rate limit approaching'', metadata = []\<rparr>
     = ''2025-12-13 12:47:11 [warn]: '' @ [CHR 0x09] @ ''API rate limit approaching''"
  using
    console_line_layout [where
      lc = "\<lparr>cfgLevel = Debug, cfgFormat = ''pretty'', directory = ''logs'', maxSize = ''20m'',
        maxFiles = ''14d''\<rparr>"
      and r = "\<lparr>level = Info, message = ''User login'',
        metadata = [(''userId'', JS_number 12345)]\<rparr>"
      and rt = "\<lparr>formatDate = (\<lambda>pattern. ''2025-12-13 12:47:10''), colorsEnabled = True,
        stringifyIndented = (\<lambda>v n. ''{ userId: 12345 }'')\<rparr>"]
    console_line_layout [where
      lc = "\<lparr>cfgLevel = Debug, cfgFormat = ''pretty'', directory = ''logs'', maxSize = ''20m'',
        maxFiles = ''14d''\<rparr>"
      and r = "\<lparr>level = Warn, message = ''API rate limit approaching'', metadata = []\<rparr>"
      and rt = "\<lparr>formatDate = (\<lambda>pattern. ''2025-12-13 12:47:11''), colorsEnabled = False,
        stringifyIndented = (\<lambda>v n. ''{}'')\<rparr>"]
  by (simp add: colorize_def)

section \<open>Claims about the error and debugging middlewares\<close>

text \<open>
  C9. For every error passed to the error-forwarding middleware, the outcome is that of
  the next error handler called with that same error, in a state whose sink has gained
  exactly one record: of severity error, with the error's message, stack and name under
  \<open>error\<close> and the request's method, url, headers, query and body under \<open>request\<close>.
\<close>

theorem errorLogger_logs_and_forwards:
  "\<exists>r e q.
     errorLogger err req next w = next err (w\<lparr>sink := sink w @ [r]\<rparr>)
     \<and> level r = Error
     \<and> map_of (metadata r) ''error'' = Some (JS_object e)
     \<and> map_of e ''message'' = Some (JS_string (errMessage err))
     \<and> map_of e ''stack'' = Some (optString (errStack err))
     \<and> map_of e ''name'' = Some (JS_string (errName err))
     \<and> map_of (metadata r) ''request'' = Some (JS_object q)
     \<and> map_of q ''method'' = Some (JS_string (reqMethod req))
     \<and> map_of q ''url'' = Some (JS_string (url req))
     \<and> map_of q ''headers'' = Some (headers req)
     \<and> map_of q ''query'' = Some (query req)
     \<and> map_of q ''body'' = Some (body req)"
proof -
  let ?e = "[(''message'', JS_string (errMessage err)), (''stack'', optString (errStack err)),
             (''name'', JS_string (errName err))]"
  let ?q = "[(''method'', JS_string (reqMethod req)), (''url'', JS_string (url req)),
             (''headers'', headers req), (''query'', query req), (''body'', body req),
             (''ip'', optString (ip req))]"
  let ?r = "\<lparr>level = Error, message = ''Request error'',
             metadata = [(''error'', JS_object ?e), (''request'', JS_object ?q)]\<rparr>"
  show ?thesis
    apply (rule exI [of _ ?r])
    apply (rule exI [of _ ?e])
    apply (rule exI [of _ ?q])
    apply (simp add: errorLogger_def logger_error_def logger_log_def)
    done
qed

lemma detailedEnd_calls_original:
  "\<exists>outgoing.
     level outgoing = Debug
     \<and> detailedEnd req startTime originalEnd this chunk encoding callback w
         = originalEnd this chunk encoding callback (w\<lparr>sink := sink w @ [outgoing]\<rparr>)"
  by (rule exI [of _ "\<lparr>level = Debug, message = ''Outgoing response'',
        metadata = [(''method'', JS_string (reqMethod req)), (''url'', JS_string (url req)),
          (''statusCode'', JS_number (statusCode (resObj w))),
          (''duration'', JS_string (showInt (now w - startTime) @ ''ms'')),
          (''headers'', getHeaders (resObj w))]\<rparr>"])
    (simp add: detailedEnd_def logger_debug_def logger_log_def Let_def)

text \<open>
  C10. The verbose dumper adds one debug record to the sink and continues with
  \<open>detailedEnd\<close> installed as the response's \<open>end\<close>. Whatever the receiver, chunk,
  encoding, callback and state it is called with, the installed function returns what the
  original \<open>end\<close> returns for that same receiver, chunk, encoding and callback; the only
  difference the original sees is that the sink has gained one record of severity debug.
\<close>

theorem detailedHttpLogger_preserves_end:
  "(\<exists>incoming.
      level incoming = Debug
      \<and> detailedHttpLogger req originalEnd next w
          = next (detailedEnd req (now w) originalEnd) (w\<lparr>sink := sink w @ [incoming]\<rparr>))
   \<and> (\<forall>this chunk encoding callback w'. \<exists>outgoing.
         level outgoing = Debug
         \<and> detailedEnd req (now w) originalEnd this chunk encoding callback w'
             = originalEnd this chunk encoding callback (w'\<lparr>sink := sink w' @ [outgoing]\<rparr>))"
proof -
  let ?incoming = "\<lparr>level = Debug, message = ''Incoming request'',
      metadata = [(''method'', JS_string (reqMethod req)), (''url'', JS_string (url req)),
        (''headers'', headers req), (''query'', query req), (''body'', body req),
        (''ip'', optString (ip req))]\<rparr>"
  have run: "detailedHttpLogger req originalEnd next w
      = next (detailedEnd req (now w) originalEnd) (w\<lparr>sink := sink w @ [?incoming]\<rparr>)"
    by (simp add: detailedHttpLogger_def logger_debug_def logger_log_def Let_def)
  have lvl: "level ?incoming = Debug"
    by simp
  have calls: "\<forall>this chunk encoding callback w'. \<exists>outgoing.
      level outgoing = Debug
      \<and> detailedEnd req (now w) originalEnd this chunk encoding callback w'
          = originalEnd this chunk encoding callback (w'\<lparr>sink := sink w' @ [outgoing]\<rparr>)"
    by (intro allI detailedEnd_calls_original)
  from run lvl calls show ?thesis
    by blast
qed

section \<open>Claims about file output and fault capture\<close>





text \<open>
  C6. Whatever the configuration, and so whatever the configured minimum level, an
  uncaught synchronous fault is delivered exactly once, to the exceptions file, and an
  unhandled rejection exactly once, to the rejections file; neither file has a level of
  its own, and neither depends on the configured level.
\<close>

theorem fault_capture_once:
  "capture (createLogger resolve join proc cfg) (UncaughtException e)
     = [(exceptionFile join (resolve (cwd proc) (directory (effectiveLogConfig cfg)))
           (effectiveLogConfig cfg), UncaughtException e)]
   \<and> capture (createLogger resolve join proc cfg) (UnhandledRejection v)
     = [(rejectionFile join (resolve (cwd proc) (directory (effectiveLogConfig cfg)))
           (effectiveLogConfig cfg), UnhandledRejection v)]
   \<and> tLevel (exceptionFile join logDir lc) = None
   \<and> tLevel (rejectionFile join logDir lc) = None
   \<and> exceptionFile join logDir (lc\<lparr>cfgLevel := l\<rparr>) = exceptionFile join logDir lc
   \<and> rejectionFile join logDir (lc\<lparr>cfgLevel := l\<rparr>) = rejectionFile join logDir lc"
  by (simp add: createLogger_def Let_def exceptionFile_def rejectionFile_def)

end
